theory Spec2Isabelle
  imports Main "HOL-Library.Word" "HOL-Library.Signed_Division"
begin

section \<open>Failures\<close>

text \<open>
  \<open>Expects\<close>, \<open>Assert\<close> and \<open>Ensures\<close> stop the program when their condition is false,
  and an index outside a vector is an access the program must not make. Each is a
  failure value of the model: a function that can fail returns \<open>failure + 'a\<close>.
\<close>

datatype failure = ExpectsFailed | AssertFailed | EnsuresFailed | IndexOutOfRange

section \<open>Item selections (history_view_element.cpp, lines 28-54)\<close>

text \<open>
  \<open>TextSelection\<close>, \<open>FullSelection\<close>, \<open>::shiftSelection\<close>, \<open>::unshiftSelection\<close> and the
  class \<open>Text\<close> are declared in headers that are not among the sources. The selection
  type and the text type are type parameters; the constant and the three functions are
  the fields of a record handed to the four functions of the source. \<open>lengthText\<close> is
  \<open>Text::length\<close>; its integer result is converted to the \<open>uint16\<close> parameter of the
  callee, which keeps the low 16 bits.
\<close>

record ('sel, 'text) SelectionOps =
  FullSelection :: 'sel
  unshiftSelection :: "'sel \<Rightarrow> 16 word \<Rightarrow> 'sel"
  shiftSelection :: "'sel \<Rightarrow> 16 word \<Rightarrow> 'sel"
  lengthText :: "'text \<Rightarrow> int"

definition UnshiftItemSelection ::
  "('sel, 'text) SelectionOps \<Rightarrow> 'sel \<Rightarrow> 16 word \<Rightarrow> 'sel" where
  "UnshiftItemSelection ops selection byLength =
     (if selection = FullSelection ops then selection
      else unshiftSelection ops selection byLength)"

definition ShiftItemSelection ::
  "('sel, 'text) SelectionOps \<Rightarrow> 'sel \<Rightarrow> 16 word \<Rightarrow> 'sel" where
  "ShiftItemSelection ops selection byLength =
     (if selection = FullSelection ops then selection
      else shiftSelection ops selection byLength)"

definition UnshiftItemSelectionText ::
  "('sel, 'text) SelectionOps \<Rightarrow> 'sel \<Rightarrow> 'text \<Rightarrow> 'sel" where
  "UnshiftItemSelectionText ops selection byText =
     UnshiftItemSelection ops selection (word_of_int (lengthText ops byText))"

definition ShiftItemSelectionText ::
  "('sel, 'text) SelectionOps \<Rightarrow> 'sel \<Rightarrow> 'text \<Rightarrow> 'sel" where
  "ShiftItemSelectionText ops selection byText =
     ShiftItemSelection ops selection (word_of_int (lengthText ops byText))"

section \<open>The step history of the intro widget (introwidget.h, lines 253-256)\<close>

text \<open>
  \<open>_stepHistory\<close> is a \<open>QVector<Step*>\<close>, a list of step pointers here; \<open>size()\<close> and
  \<open>skip\<close> are C++ \<open>int\<close>s, unbounded integers here (no claim is about their overflow).
  \<open>QVector::at\<close> requires \<open>0 <= i < size()\<close>.
\<close>

definition at_QVector :: "'a list \<Rightarrow> int \<Rightarrow> failure + 'a" where
  "at_QVector v i =
     (if 0 \<le> i \<and> i < int (length v) then Inr (v ! nat i) else Inl IndexOutOfRange)"

definition getStep :: "'step list \<Rightarrow> int \<Rightarrow> failure + 'step" where
  "getStep stepHistory skip =
     (if int (length stepHistory) + skip > 0
      then at_QVector stepHistory (int (length stepHistory) - skip - 1)
      else Inl AssertFailed)"

section \<open>The objects of the history view (history_view_element.cpp)\<close>

text \<open>
  Objects live in a store and are named by their addresses. A pointer that the source
  declares \<open>not_null\<close> (or dereferences unchecked) is an address; a pointer that the
  source tests against \<open>nullptr\<close> is an \<open>option\<close>.
\<close>

type_synonym elem_ptr = nat
type_synonym item_ptr = nat
type_synonym block_ptr = nat
type_synonym history_ptr = nat
type_synonym peer_ptr = nat

text \<open>
  A \<open>QDateTime\<close> is the number of milliseconds since the epoch, a \<open>QDate\<close> a day number.
  \<open>QDateTime::secsTo\<close> is Qt's: the difference in milliseconds divided by 1000, the
  quotient truncated towards zero. \<open>MessageGroupId\<close> is an integer id whose zero is the
  null id.
\<close>

type_synonym QDateTime = int
type_synonym QDate = int
type_synonym MessageGroupId = nat

definition secsTo :: "QDateTime \<Rightarrow> QDateTime \<Rightarrow> int" where
  "secsTo this other = (other - this) sdiv 1000"

definition kAttachMessageToPreviousSecondsDelta :: int where
  "kAttachMessageToPreviousSecondsDelta = 900"

text \<open>
  The bits of \<open>Element::_flags\<close>: the four flags the source names, each a bit of its
  own, so that the flag word is the set of the flags that are set. Of \<open>Context\<close> the
  source names \<open>History\<close> only.
\<close>

datatype Flag = NeedsResize | AttachedToPrevious | AttachedToNext | HiddenByGroup

datatype Context = History | OtherContext

text \<open>The \<open>Group\<close> component of an element.\<close>

record Group =
  groupId :: MessageGroupId
  leader :: "elem_ptr option"
  others :: "elem_ptr list"

text \<open>
  An \<open>Element\<close>: its members, and its \<open>Group\<close> component when it has one. The media
  view (\<open>HistoryMedia\<close>) is a value of a type parameter.
\<close>

record 'm Element =
  e_data :: item_ptr
  e_media :: "'m option"
  e_context :: Context
  e_flags :: "Flag set"
  e_y :: int
  e_block :: "block_ptr option"
  e_indexInBlock :: int
  e_Group :: "Group option"

text \<open>
  A \<open>HistoryItem\<close>, as far as the source reads it: the results of \<open>isPost()\<close>,
  \<open>serviceMsg()\<close>, \<open>isEmpty()\<close>, \<open>senderOriginal()\<close>, \<open>from()\<close>, \<open>history()\<close>,
  \<open>groupId()\<close> and \<open>media()\<close>, the member \<open>date\<close>, and the three components the source
  asks for. The \<open>HistoryMessageDate\<close> component holds the date it was initialised with.
\<close>

record 'd HistoryItem =
  i_isPost :: bool
  i_serviceMsg :: bool
  i_isEmpty :: bool
  i_date :: QDateTime
  i_senderOriginal :: peer_ptr
  i_from :: peer_ptr
  i_history :: history_ptr
  i_groupId :: MessageGroupId
  i_media :: "'d option"
  i_HistoryMessageDate :: "QDateTime option"
  i_HistoryMessageUnreadBar :: bool
  i_HistoryMessageForwarded :: bool

record History =
  h_peerIsSelf :: bool
  h_hasPendingResizedItems :: bool

record HistoryBlock =
  messages :: "elem_ptr list"
  previousBlock :: "block_ptr option"
  nextBlock :: "block_ptr option"

text \<open>
  The store: the objects by address, and what the session (\<open>Auth().data()\<close>) has been
  asked for, in the order of the calls.
\<close>

record ('m, 'd) Store =
  elements :: "elem_ptr \<Rightarrow> 'm Element"
  items :: "item_ptr \<Rightarrow> 'd HistoryItem"
  histories :: "history_ptr \<Rightarrow> History"
  blocks :: "block_ptr \<Rightarrow> HistoryBlock"
  registeredViews :: "elem_ptr list"
  viewResizeRequests :: "elem_ptr list"
  itemRepaintRequests :: "item_ptr list"
  chatsListInvalidations :: "item_ptr list"

text \<open>
  What the source calls and the sources do not hold: the virtual functions of the media
  classes, the constructor of \<open>HistoryGroupedMedia\<close>, \<open>QDateTime::date\<close> (the calendar
  day in local time) and the default member initialisers of \<open>Element\<close>. \<open>applyGroup\<close>
  returns its result and the media as the call leaves it.
\<close>

record ('m, 'd) Env =
  createView :: "'d \<Rightarrow> elem_ptr \<Rightarrow> 'm"
  takeLastFromGroup :: "'m \<Rightarrow> 'm option"
  applyGroup :: "'m \<Rightarrow> elem_ptr list \<Rightarrow> bool \<times> 'm"
  HistoryGroupedMedia :: "elem_ptr \<Rightarrow> elem_ptr list \<Rightarrow> 'm"
  dateOf :: "QDateTime \<Rightarrow> QDate"
  memberDefaults :: "'m Element"

subsection \<open>Writes to the store\<close>

definition updElement ::
  "('m, 'd) Store \<Rightarrow> elem_ptr \<Rightarrow> ('m Element \<Rightarrow> 'm Element) \<Rightarrow> ('m, 'd) Store" where
  "updElement s p f = s\<lparr>elements := (elements s)(p := f (elements s p))\<rparr>"

definition updItem ::
  "('m, 'd) Store \<Rightarrow> item_ptr \<Rightarrow> ('d HistoryItem \<Rightarrow> 'd HistoryItem) \<Rightarrow> ('m, 'd) Store" where
  "updItem s p f = s\<lparr>items := (items s)(p := f (items s p))\<rparr>"

definition setHasPendingResizedItems :: "('m, 'd) Store \<Rightarrow> history_ptr \<Rightarrow> ('m, 'd) Store" where
  "setHasPendingResizedItems s h =
     s\<lparr>histories := (histories s)(h := (histories s h)\<lparr>h_hasPendingResizedItems := True\<rparr>)\<rparr>"

definition registerItemView :: "('m, 'd) Store \<Rightarrow> elem_ptr \<Rightarrow> ('m, 'd) Store" where
  "registerItemView s view = s\<lparr>registeredViews := registeredViews s @ [view]\<rparr>"

definition requestViewResize :: "('m, 'd) Store \<Rightarrow> elem_ptr \<Rightarrow> ('m, 'd) Store" where
  "requestViewResize s view = s\<lparr>viewResizeRequests := viewResizeRequests s @ [view]\<rparr>"

definition requestItemRepaint :: "('m, 'd) Store \<Rightarrow> item_ptr \<Rightarrow> ('m, 'd) Store" where
  "requestItemRepaint s item = s\<lparr>itemRepaintRequests := itemRepaintRequests s @ [item]\<rparr>"

definition invalidateChatsListEntry :: "('m, 'd) Store \<Rightarrow> item_ptr \<Rightarrow> ('m, 'd) Store" where
  "invalidateChatsListEntry s item =
     s\<lparr>chatsListInvalidations := chatsListInvalidations s @ [item]\<rparr>"

subsection \<open>Accessors and flags (lines 64-147)\<close>

definition data :: "('m, 'd) Store \<Rightarrow> elem_ptr \<Rightarrow> item_ptr" where
  "data s this = e_data (elements s this)"

definition media :: "('m, 'd) Store \<Rightarrow> elem_ptr \<Rightarrow> 'm option" where
  "media s this = e_media (elements s this)"

definition setPendingResize :: "('m, 'd) Store \<Rightarrow> elem_ptr \<Rightarrow> ('m, 'd) Store" where
  "setPendingResize s this =
     (let s1 = updElement s this (\<lambda>el. el\<lparr>e_flags := insert NeedsResize (e_flags el)\<rparr>)
      in if e_context (elements s1 this) = History
         then setHasPendingResizedItems s1 (i_history (items s1 (data s1 this)))
         else s1)"

definition pendingResize :: "('m, 'd) Store \<Rightarrow> elem_ptr \<Rightarrow> bool" where
  "pendingResize s this \<longleftrightarrow> NeedsResize \<in> e_flags (elements s this)"

definition isAttachedToPrevious :: "('m, 'd) Store \<Rightarrow> elem_ptr \<Rightarrow> bool" where
  "isAttachedToPrevious s this \<longleftrightarrow> AttachedToPrevious \<in> e_flags (elements s this)"

definition isAttachedToNext :: "('m, 'd) Store \<Rightarrow> elem_ptr \<Rightarrow> bool" where
  "isAttachedToNext s this \<longleftrightarrow> AttachedToNext \<in> e_flags (elements s this)"

definition isHiddenByGroup :: "('m, 'd) Store \<Rightarrow> elem_ptr \<Rightarrow> bool" where
  "isHiddenByGroup s this \<longleftrightarrow> HiddenByGroup \<in> e_flags (elements s this)"

text \<open>\<open>Has<HistoryMessageDate>()\<close> on an item.\<close>

definition Has_HistoryMessageDate :: "'d HistoryItem \<Rightarrow> bool" where
  "Has_HistoryMessageDate item \<longleftrightarrow> i_HistoryMessageDate item \<noteq> None"

subsection \<open>Attaching to the neighbours (lines 325-343)\<close>

definition setAttachToNext :: "('m, 'd) Store \<Rightarrow> elem_ptr \<Rightarrow> bool \<Rightarrow> ('m, 'd) Store" where
  "setAttachToNext s this attachToNext =
     (if attachToNext \<and> \<not> AttachedToNext \<in> e_flags (elements s this)
      then requestItemRepaint
             (updElement s this (\<lambda>el. el\<lparr>e_flags := insert AttachedToNext (e_flags el)\<rparr>))
             (data s this)
      else if \<not> attachToNext \<and> AttachedToNext \<in> e_flags (elements s this)
      then requestItemRepaint
             (updElement s this (\<lambda>el. el\<lparr>e_flags := e_flags el - {AttachedToNext}\<rparr>))
             (data s this)
      else s)"

definition setAttachToPrevious :: "('m, 'd) Store \<Rightarrow> elem_ptr \<Rightarrow> bool \<Rightarrow> ('m, 'd) Store" where
  "setAttachToPrevious s this attachToPrevious =
     (if attachToPrevious \<and> \<not> AttachedToPrevious \<in> e_flags (elements s this)
      then setPendingResize
             (updElement s this (\<lambda>el. el\<lparr>e_flags := insert AttachedToPrevious (e_flags el)\<rparr>))
             this
      else if \<not> attachToPrevious \<and> AttachedToPrevious \<in> e_flags (elements s this)
      then setPendingResize
             (updElement s this (\<lambda>el. el\<lparr>e_flags := e_flags el - {AttachedToPrevious}\<rparr>))
             this
      else s)"

subsection \<open>The date separator (lines 313-323)\<close>

definition setDisplayDate :: "('m, 'd) Store \<Rightarrow> elem_ptr \<Rightarrow> bool \<Rightarrow> ('m, 'd) Store" where
  "setDisplayDate s this displayDate =
     (let item = data s this in
      if displayDate \<and> \<not> Has_HistoryMessageDate (items s item)
      then setPendingResize
             (updItem s item (\<lambda>it. it\<lparr>i_HistoryMessageDate := Some (i_date it)\<rparr>)) this
      else if \<not> displayDate \<and> Has_HistoryMessageDate (items s item)
      then setPendingResize
             (updItem s item (\<lambda>it. it\<lparr>i_HistoryMessageDate := None\<rparr>)) this
      else s)"

subsection \<open>The neighbours in the blocks (lines 447-458)\<close>

text \<open>
  \<open>_block->messages[_indexInBlock - 1]\<close> is a vector access: outside the vector it is
  a failure. \<open>previousBlock()\<close> of a block is the field of that name.
\<close>

definition previousInBlocks :: "('m, 'd) Store \<Rightarrow> elem_ptr \<Rightarrow> failure + elem_ptr option" where
  "previousInBlocks s this =
     (let el = elements s this in
      case e_block el of
        None \<Rightarrow> Inr None
      | Some b \<Rightarrow>
          if e_indexInBlock el \<ge> 0 then
            if e_indexInBlock el > 0 then
              (let ms = messages (blocks s b); i = e_indexInBlock el - 1 in
               if i < int (length ms) then Inr (Some (ms ! nat i)) else Inl IndexOutOfRange)
            else
              (case previousBlock (blocks s b) of
                 Some previous \<Rightarrow>
                   if messages (blocks s previous) = [] then Inl AssertFailed
                   else Inr (Some (last (messages (blocks s previous))))
               | None \<Rightarrow> Inr None)
          else Inr None)"

subsection \<open>Attach to previous (lines 257-284)\<close>

definition computeIsAttachToPrevious :: "('m, 'd) Store \<Rightarrow> elem_ptr \<Rightarrow> elem_ptr \<Rightarrow> bool" where
  "computeIsAttachToPrevious s this previous =
     (let item = items s (data s this) in
      if \<not> Has_HistoryMessageDate item \<and> \<not> i_HistoryMessageUnreadBar item then
        (let prev = items s (data s previous);
             possible = (\<not> i_isPost item \<and> \<not> i_isPost prev
               \<and> \<not> i_serviceMsg item \<and> \<not> i_serviceMsg prev
               \<and> \<not> i_isEmpty item \<and> \<not> i_isEmpty prev
               \<and> \<bar>secsTo (i_date prev) (i_date item)\<bar> < kAttachMessageToPreviousSecondsDelta)
         in if possible then
              if h_peerIsSelf (histories s (i_history item)) then
                i_senderOriginal prev = i_senderOriginal item
                \<and> (i_HistoryMessageForwarded prev = i_HistoryMessageForwarded item)
              else i_from prev = i_from item
            else False)
      else False)"

definition recountAttachToPreviousInBlocks ::
  "('m, 'd) Store \<Rightarrow> elem_ptr \<Rightarrow> failure + ('m, 'd) Store" where
  "recountAttachToPreviousInBlocks s this =
     (case previousInBlocks s this of
        Inl f \<Rightarrow> Inl f
      | Inr None \<Rightarrow> Inr (setAttachToPrevious s this False)
      | Inr (Some previous) \<Rightarrow>
          (let attachToPrevious = computeIsAttachToPrevious s this previous;
               s1 = setAttachToNext s previous attachToPrevious
           in Inr (setAttachToPrevious s1 this attachToPrevious)))"

subsection \<open>Recounting the date separator (lines 286-299)\<close>

definition recountDisplayDateInBlocks ::
  "('m, 'd) Env \<Rightarrow> ('m, 'd) Store \<Rightarrow> elem_ptr \<Rightarrow> failure + ('m, 'd) Store" where
  "recountDisplayDateInBlocks env s this =
     (let item = items s (data s this) in
      if i_isEmpty item then Inr (setDisplayDate s this False)
      else
        (case previousInBlocks s this of
           Inl f \<Rightarrow> Inl f
         | Inr (Some previous) \<Rightarrow>
             (let prev = items s (data s previous) in
              Inr (setDisplayDate s this
                (i_isEmpty prev \<or> dateOf env (i_date prev) \<noteq> dateOf env (i_date item))))
         | Inr None \<Rightarrow> Inr (setDisplayDate s this True)))"

subsection \<open>Groups (lines 149-188 and 217-234)\<close>

text \<open>
  \<open>Get<Group>()\<close> is the component or null; a write through the pointer it returns
  changes the component in place (\<open>updGroup\<close>). \<open>groupOthers\<close> reads \<open>group->others\<close>.
\<close>

definition Get_Group :: "('m, 'd) Store \<Rightarrow> elem_ptr \<Rightarrow> Group option" where
  "Get_Group s this = e_Group (elements s this)"

definition updGroup ::
  "('m, 'd) Store \<Rightarrow> elem_ptr \<Rightarrow> (Group \<Rightarrow> Group) \<Rightarrow> ('m, 'd) Store" where
  "updGroup s this f = updElement s this (\<lambda>el. el\<lparr>e_Group := map_option f (e_Group el)\<rparr>)"

definition groupOthers :: "('m, 'd) Store \<Rightarrow> elem_ptr \<Rightarrow> elem_ptr list" where
  "groupOthers s this = (case Get_Group s this of Some g \<Rightarrow> others g | None \<Rightarrow> [])"

text \<open>
  \<open>AddComponents(Group::Bit())\<close>: a default-constructed component is added unless the
  element has the component already.
\<close>

definition AddComponents_Group :: "('m, 'd) Store \<Rightarrow> elem_ptr \<Rightarrow> ('m, 'd) Store" where
  "AddComponents_Group s this =
     updElement s this (\<lambda>el.
       case e_Group el of
         None \<Rightarrow> el\<lparr>e_Group := Some \<lparr>groupId = 0, leader = None, others = []\<rparr>\<rparr>
       | Some g \<Rightarrow> el)"

definition makeGroupMember ::
  "('m, 'd) Env \<Rightarrow> ('m, 'd) Store \<Rightarrow> elem_ptr \<Rightarrow> elem_ptr \<Rightarrow> failure + ('m, 'd) Store" where
  "makeGroupMember env s this leaderArg =
     (if leaderArg = this then Inl ExpectsFailed
      else
        case Get_Group s this of
          None \<Rightarrow> Inl AssertFailed
        | Some grp \<Rightarrow>
            (let s' =
               (if leader grp = Some this then
                  (let s1 = (case e_media (elements s this) of
                               None \<Rightarrow> s
                             | Some m \<Rightarrow>
                                 (case takeLastFromGroup env m of
                                    None \<Rightarrow> s
                                  | Some single \<Rightarrow>
                                      updElement s this (\<lambda>el. el\<lparr>e_media := Some single\<rparr>)));
                       s2 = updElement s1 this
                              (\<lambda>el. el\<lparr>e_flags := insert HiddenByGroup (e_flags el)\<rparr>);
                       s3 = requestViewResize s2 this;
                       s4 = updGroup s3 this (\<lambda>g. g\<lparr>leader := Some leaderArg\<rparr>)
                   in updGroup s4 this (\<lambda>g. g\<lparr>others := []\<rparr>))
                else if leader grp \<noteq> Some leaderArg then
                  updGroup s this (\<lambda>g. g\<lparr>leader := Some leaderArg\<rparr>)
                else s)
             in if \<not> isHiddenByGroup s' this then Inl EnsuresFailed
                else if \<not> groupOthers s' this = [] then Inl EnsuresFailed
                else Inr s'))"

definition resetGroupMedia ::
  "('m, 'd) Env \<Rightarrow> ('m, 'd) Store \<Rightarrow> elem_ptr \<Rightarrow> elem_ptr list \<Rightarrow> ('m, 'd) Store" where
  "resetGroupMedia env s this othersArg =
     (let s1 =
        (if othersArg \<noteq> [] then
           updElement s this
             (\<lambda>el. el\<lparr>e_media := Some (HistoryGroupedMedia env this othersArg)\<rparr>)
         else
           (case e_media (elements s this) of
              Some m \<Rightarrow> updElement s this (\<lambda>el. el\<lparr>e_media := takeLastFromGroup env m\<rparr>)
            | None \<Rightarrow> s))
      in requestViewResize s1 this)"

definition makeGroupLeader ::
  "('m, 'd) Env \<Rightarrow> ('m, 'd) Store \<Rightarrow> elem_ptr \<Rightarrow> elem_ptr list \<Rightarrow> failure + ('m, 'd) Store" where
  "makeGroupLeader env s this othersArg =
     (case Get_Group s this of
        None \<Rightarrow> Inl AssertFailed
      | Some grp \<Rightarrow>
          (let leaderChanged = (leader grp \<noteq> Some this);
               s1 = (if leaderChanged then
                       (let t1 = updGroup s this (\<lambda>g. g\<lparr>leader := Some this\<rparr>);
                            t2 = updElement t1 this
                                   (\<lambda>el. el\<lparr>e_flags := e_flags el - {HiddenByGroup}\<rparr>)
                        in requestViewResize t2 this)
                     else s);
               s2 = updGroup s1 this (\<lambda>g. g\<lparr>others := othersArg\<rparr>);
               s3 = (case e_media (elements s2 this) of
                       None \<Rightarrow>
                         invalidateChatsListEntry
                           (resetGroupMedia env s2 this (groupOthers s2 this)) (data s2 this)
                     | Some m \<Rightarrow>
                         (let (applied, m') = applyGroup env m (groupOthers s2 this);
                              t = updElement s2 this (\<lambda>el. el\<lparr>e_media := Some m'\<rparr>)
                          in if \<not> applied then
                               invalidateChatsListEntry
                                 (resetGroupMedia env t this (groupOthers t this)) (data t this)
                             else t))
           in if isHiddenByGroup s3 this then Inl EnsuresFailed else Inr s3))"

definition initGroup :: "('m, 'd) Store \<Rightarrow> elem_ptr \<Rightarrow> ('m, 'd) Store" where
  "initGroup s this =
     (let groupIdV = i_groupId (items s (e_data (elements s this))) in
      if groupIdV \<noteq> 0 then
        (let s1 = AddComponents_Group s this;
             s2 = updGroup s1 this (\<lambda>g. g\<lparr>groupId := groupIdV\<rparr>)
         in updGroup s2 this (\<lambda>g. g\<lparr>leader := Some this\<rparr>))
      else s)"

subsection \<open>The constructor (lines 56-62)\<close>

text \<open>
  The object is built at the address \<open>this\<close>. The constructor initialises \<open>_data\<close>,
  \<open>_media\<close> and \<open>_context\<close>; the other members take the default member initialisers of
  the class (\<open>memberDefaults\<close>), and a new object has no component.
\<close>

definition Element_ctor ::
  "('m, 'd) Env \<Rightarrow> ('m, 'd) Store \<Rightarrow> elem_ptr \<Rightarrow> item_ptr \<Rightarrow> Context \<Rightarrow> ('m, 'd) Store" where
  "Element_ctor env s this dataArg context =
     (let media0 = (case i_media (items s dataArg) of
                      Some dm \<Rightarrow> Some (createView env dm this)
                    | None \<Rightarrow> None);
          s1 = s\<lparr>elements := (elements s)(this :=
                 (memberDefaults env)\<lparr>e_data := dataArg, e_media := media0,
                   e_context := context, e_Group := None\<rparr>)\<rparr>;
          s2 = registerItemView s1 this
      in initGroup s2 this)"

subsection \<open>When the date separator is wanted\<close>

text \<open>
  The condition in the words of the specification: the item is not empty, and there is
  no previous element in the blocks, or the previous item is empty, or the calendar
  dates of the two items differ.
\<close>

definition displayDateWanted :: "('m, 'd) Env \<Rightarrow> ('m, 'd) Store \<Rightarrow> elem_ptr \<Rightarrow> bool" where
  "displayDateWanted env s this \<longleftrightarrow>
     \<not> i_isEmpty (items s (data s this))
     \<and> (case previousInBlocks s this of
          Inr None \<Rightarrow> True
        | Inr (Some previous) \<Rightarrow>
            i_isEmpty (items s (data s previous))
            \<or> dateOf env (i_date (items s (data s previous)))
                \<noteq> dateOf env (i_date (items s (data s this)))
        | Inl f \<Rightarrow> False)"

section \<open>A small history, for the examples\<close>

text \<open>
  Media views are photos or albums. One block holds the elements 0, 1, 2 and 3, the
  element \<open>p\<close> shows the item \<open>p\<close>, and the item \<open>p\<close> is dated \<open>p\<close> times ten minutes.
  The items 0, 1 and 2 are from the peer 5, the item 3 from the peer 6; the items 2
  and 3 belong to the group 9.
\<close>

datatype ExMedia = Photo nat | Album elem_ptr "elem_ptr list"

definition exEnv :: "(ExMedia, nat) Env" where
  "exEnv = \<lparr>createView = (\<lambda>d view. Photo d),
            takeLastFromGroup = (\<lambda>m. None),
            applyGroup = (\<lambda>m os. (False, m)),
            HistoryGroupedMedia = Album,
            dateOf = (\<lambda>t. t div 86400000),
            memberDefaults = \<lparr>e_data = 0, e_media = None, e_context = History,
              e_flags = {NeedsResize}, e_y = 0, e_block = None, e_indexInBlock = - 1,
              e_Group = None\<rparr>\<rparr>"

definition exItem :: "item_ptr \<Rightarrow> nat HistoryItem" where
  "exItem p = \<lparr>i_isPost = False, i_serviceMsg = False, i_isEmpty = False,
     i_date = 600000 * int p, i_senderOriginal = (if p < 3 then 5 else 6),
     i_from = (if p < 3 then 5 else 6), i_history = 0,
     i_groupId = (if p < 2 then 0 else 9), i_media = Some p,
     i_HistoryMessageDate = None, i_HistoryMessageUnreadBar = False,
     i_HistoryMessageForwarded = False\<rparr>"

definition exElement :: "elem_ptr \<Rightarrow> ExMedia Element" where
  "exElement p = \<lparr>e_data = p, e_media = Some (Photo p), e_context = History,
     e_flags = {}, e_y = 0, e_block = Some 0, e_indexInBlock = int p,
     e_Group = (if p < 2 then None
                else Some \<lparr>groupId = 9, leader = Some p, others = []\<rparr>)\<rparr>"

definition exStore :: "(ExMedia, nat) Store" where
  "exStore = \<lparr>elements = exElement, items = exItem,
     histories = (\<lambda>h. \<lparr>h_peerIsSelf = False, h_hasPendingResizedItems = False\<rparr>),
     blocks = (\<lambda>b. \<lparr>messages = [0, 1, 2, 3], previousBlock = None, nextBlock = None\<rparr>),
     registeredViews = [0, 1, 2, 3], viewResizeRequests = [],
     itemRepaintRequests = [], chatsListInvalidations = []\<rparr>"

text \<open>
  The same history with the items 2 and 3 shown as one album: the element 2 leads the
  group, with the element 3 as its only other, and the element 3 is hidden by the group.
\<close>

definition exGrouped :: "(ExMedia, nat) Store" where
  "exGrouped = exStore\<lparr>elements := (\<lambda>p.
     if p = 2 then
       (exElement 2)\<lparr>e_media := Some (Album 2 [3]),
         e_Group := Some \<lparr>groupId = 9, leader = Some 2, others = [3]\<rparr>\<rparr>
     else if p = 3 then
       (exElement 3)\<lparr>e_flags := {HiddenByGroup},
         e_Group := Some \<lparr>groupId = 9, leader = Some 2, others = []\<rparr>\<rparr>
     else exElement p)\<rparr>"

section \<open>Theorems\<close>

subsection \<open>Item selections\<close>

text \<open>
  C8. For every length, \<open>UnshiftItemSelection\<close> and \<open>ShiftItemSelection\<close> return
  \<open>FullSelection\<close> when given \<open>FullSelection\<close>, and each overload that takes a \<open>Text\<close>
  is the \<open>uint16\<close> overload at the length of the text.
\<close>

theorem ItemSelection_full_fixed_and_text_overloads:
  "UnshiftItemSelection ops (FullSelection ops) byLength = FullSelection ops
   \<and> ShiftItemSelection ops (FullSelection ops) byLength = FullSelection ops
   \<and> UnshiftItemSelectionText ops selection byText =
       UnshiftItemSelection ops selection (word_of_int (lengthText ops byText))
   \<and> ShiftItemSelectionText ops selection byText =
       ShiftItemSelection ops selection (word_of_int (lengthText ops byText))"
  by (simp add: UnshiftItemSelection_def ShiftItemSelection_def
      UnshiftItemSelectionText_def ShiftItemSelectionText_def)

subsection \<open>The step history\<close>

lemma getStep_in_range:
  "0 \<le> skip \<Longrightarrow> skip < int (length stepHistory) \<Longrightarrow>
   getStep stepHistory skip = Inr (stepHistory ! nat (int (length stepHistory) - skip - 1))"
  by (simp add: getStep_def at_QVector_def)

lemma getStep_assert_passes_out_of_range:
  "0 \<le> skip \<Longrightarrow> int (length stepHistory) \<le> skip \<Longrightarrow> 0 < skip \<Longrightarrow>
   getStep stepHistory skip = Inl IndexOutOfRange"
  by (simp add: getStep_def at_QVector_def)

text \<open>
  C3. With one step in the history and \<open>skip = 1\<close> the assertion of \<open>getStep\<close> passes
  (\<open>1 + 1 > 0\<close>) and the index \<open>1 - 1 - 1 = -1\<close> lies outside the vector: the
  asserted condition does not keep the access in bounds.
\<close>

theorem getStep_assert_does_not_bound_index:
  "getStep [7 :: nat] 1 = Inl IndexOutOfRange
   \<and> int (length [7 :: nat]) + 1 > 0
   \<and> \<not> (0 \<le> int (length [7 :: nat]) - 1 - 1)"
  by (simp add: getStep_def at_QVector_def)

subsection \<open>Reading the store after a write\<close>

lemmas store_defs = updElement_def updItem_def setHasPendingResizedItems_def
  registerItemView_def requestViewResize_def requestItemRepaint_def
  invalidateChatsListEntry_def data_def media_def

lemma flags_setPendingResize:
  "e_flags (elements (setPendingResize s p) q) =
     (if q = p then insert NeedsResize (e_flags (elements s q)) else e_flags (elements s q))"
  by (auto simp: setPendingResize_def store_defs Let_def)

lemma elements_setPendingResize:
  "elements (setPendingResize s p) q =
     (if q = p then (elements s q)\<lparr>e_flags := insert NeedsResize (e_flags (elements s q))\<rparr>
      else elements s q)"
  by (simp add: setPendingResize_def store_defs Let_def)

lemma items_setPendingResize: "items (setPendingResize s p) = items s"
  by (simp add: setPendingResize_def store_defs Let_def)

lemma blocks_setPendingResize: "blocks (setPendingResize s p) = blocks s"
  by (simp add: setPendingResize_def store_defs Let_def)

lemma peerIsSelf_setPendingResize:
  "h_peerIsSelf (histories (setPendingResize s p) h) = h_peerIsSelf (histories s h)"
  by (simp add: setPendingResize_def store_defs Let_def)

lemma flags_setAttachToNext:
  "e_flags (elements (setAttachToNext s p b) q) =
     (if q = p then (if b then insert AttachedToNext (e_flags (elements s q))
                     else e_flags (elements s q) - {AttachedToNext})
      else e_flags (elements s q))"
  by (auto simp: setAttachToNext_def store_defs)

lemma flags_setAttachToPrevious:
  "e_flags (elements (setAttachToPrevious s p b) q) =
     (if q = p \<and> (b \<noteq> (AttachedToPrevious \<in> e_flags (elements s q)))
      then (if b then insert NeedsResize (insert AttachedToPrevious (e_flags (elements s q)))
            else insert NeedsResize (e_flags (elements s q) - {AttachedToPrevious}))
      else e_flags (elements s q))"
  by (auto simp: setAttachToPrevious_def flags_setPendingResize store_defs)

lemma elements_setAttachToNext:
  "elements (setAttachToNext s p b) q =
     (elements s q)\<lparr>e_flags := e_flags (elements (setAttachToNext s p b) q)\<rparr>"
  by (simp add: setAttachToNext_def store_defs)

lemma elements_setAttachToPrevious:
  "elements (setAttachToPrevious s p b) q =
     (elements s q)\<lparr>e_flags := e_flags (elements (setAttachToPrevious s p b) q)\<rparr>"
  by (simp add: setAttachToPrevious_def elements_setPendingResize store_defs)

lemma setAttachToNext_frame:
  "items (setAttachToNext s p b) = items s"
  "blocks (setAttachToNext s p b) = blocks s"
  "histories (setAttachToNext s p b) = histories s"
  by (simp_all add: setAttachToNext_def store_defs)

lemma setAttachToPrevious_frame:
  "items (setAttachToPrevious s p b) = items s"
  "blocks (setAttachToPrevious s p b) = blocks s"
  "h_peerIsSelf (histories (setAttachToPrevious s p b) h) = h_peerIsSelf (histories s h)"
  by (simp_all add: setAttachToPrevious_def items_setPendingResize blocks_setPendingResize
      peerIsSelf_setPendingResize store_defs)

subsection \<open>Attach to previous: the decision\<close>

lemma abs_sdiv_1000_less: "\<bar>(x::int) sdiv 1000\<bar> < 900 \<longleftrightarrow> \<bar>x\<bar> < 900000"
proof -
  have "\<bar>x sdiv 1000\<bar> = \<bar>x\<bar> div 1000"
    by (simp add: signed_divide_int_def abs_mult sgn_if)
  moreover have "\<bar>x\<bar> div 1000 < 900 \<longleftrightarrow> \<bar>x\<bar> < 900000"
    by linarith
  ultimately show ?thesis by simp
qed

lemma abs_secsTo_less:
  "\<bar>secsTo a b\<bar> < kAttachMessageToPreviousSecondsDelta \<longleftrightarrow> \<bar>b - a\<bar> < 900 * 1000"
  by (simp add: secsTo_def kAttachMessageToPreviousSecondsDelta_def abs_sdiv_1000_less)

text \<open>
  C1. \<open>computeIsAttachToPrevious(previous)\<close> is true exactly when the element's item has
  neither a \<open>HistoryMessageDate\<close> nor a \<open>HistoryMessageUnreadBar\<close> component, both items
  are not posts, not service messages and not empty, their dates are less than 900
  seconds (900000 milliseconds) apart, and the senders agree: in a chat with oneself the
  original senders and the forwarded flags, in any other chat the \<open>from()\<close> peers.
  In every other case it is false.
\<close>

theorem computeIsAttachToPrevious_iff:
  "computeIsAttachToPrevious s this previous \<longleftrightarrow>
     (let item = items s (data s this); prev = items s (data s previous) in
      \<not> Has_HistoryMessageDate item \<and> \<not> i_HistoryMessageUnreadBar item
      \<and> \<not> i_isPost item \<and> \<not> i_isPost prev
      \<and> \<not> i_serviceMsg item \<and> \<not> i_serviceMsg prev
      \<and> \<not> i_isEmpty item \<and> \<not> i_isEmpty prev
      \<and> \<bar>i_date item - i_date prev\<bar> < 900 * 1000
      \<and> (if h_peerIsSelf (histories s (i_history item))
         then i_senderOriginal prev = i_senderOriginal item
              \<and> (i_HistoryMessageForwarded prev \<longleftrightarrow> i_HistoryMessageForwarded item)
         else i_from prev = i_from item))"
  unfolding computeIsAttachToPrevious_def Let_def abs_secsTo_less by auto

text \<open>
  In the example the item 1 follows the item 0 by ten minutes and attaches; the item 2
  follows the item 0 by twenty minutes and does not; the item 3 is from another peer
  than the item 2 and does not.
\<close>

theorem computeIsAttachToPrevious_iff_witness:
  "computeIsAttachToPrevious exStore 1 0
   \<and> \<not> computeIsAttachToPrevious exStore 2 0
   \<and> \<not> computeIsAttachToPrevious exStore 3 2"
  using computeIsAttachToPrevious_iff [of exStore 1 0]
    computeIsAttachToPrevious_iff [of exStore 2 0]
    computeIsAttachToPrevious_iff [of exStore 3 2]
  by (simp add: exStore_def exItem_def exElement_def data_def Has_HistoryMessageDate_def)

subsection \<open>Attach to next and to previous: the flags\<close>

text \<open>
  C9, as the code has it. After \<open>setAttachToNext(b)\<close> the attached-to-next flag is \<open>b\<close>,
  after \<open>setAttachToPrevious(b)\<close> the attached-to-previous flag is \<open>b\<close>. A call whose
  flag is \<open>b\<close> already returns the store it was given: no flag changes and nothing is
  requested. \<open>setAttachToNext\<close> changes no other flag of the element.
  \<open>setAttachToPrevious\<close> changes no flag other than its own and \<open>NeedsResize\<close>, and
  \<open>NeedsResize\<close> is set afterwards exactly when it was set before or the
  attached-to-previous flag changed.
\<close>

theorem setAttachTo_flags:
  "isAttachedToNext (setAttachToNext s this b) this = b
   \<and> isAttachedToPrevious (setAttachToPrevious s this b) this = b
   \<and> (isAttachedToNext s this = b \<longrightarrow> setAttachToNext s this b = s)
   \<and> (isAttachedToPrevious s this = b \<longrightarrow> setAttachToPrevious s this b = s)
   \<and> (\<forall>f. f \<noteq> AttachedToNext \<longrightarrow>
         (f \<in> e_flags (elements (setAttachToNext s this b) this)
          \<longleftrightarrow> f \<in> e_flags (elements s this)))
   \<and> (\<forall>f. f \<noteq> AttachedToPrevious \<longrightarrow> f \<noteq> NeedsResize \<longrightarrow>
         (f \<in> e_flags (elements (setAttachToPrevious s this b) this)
          \<longleftrightarrow> f \<in> e_flags (elements s this)))
   \<and> (pendingResize (setAttachToPrevious s this b) this
        \<longleftrightarrow> pendingResize s this \<or> isAttachedToPrevious s this \<noteq> b)"
proof -
  have a: "isAttachedToNext (setAttachToNext s this b) this = b"
    by (simp add: isAttachedToNext_def flags_setAttachToNext)
  have b: "isAttachedToPrevious (setAttachToPrevious s this b) this = b"
    by (auto simp: isAttachedToPrevious_def flags_setAttachToPrevious)
  have c: "isAttachedToNext s this = b \<longrightarrow> setAttachToNext s this b = s"
    by (auto simp: isAttachedToNext_def setAttachToNext_def)
  have d: "isAttachedToPrevious s this = b \<longrightarrow> setAttachToPrevious s this b = s"
    by (auto simp: isAttachedToPrevious_def setAttachToPrevious_def)
  have e: "\<forall>f. f \<noteq> AttachedToNext \<longrightarrow>
         (f \<in> e_flags (elements (setAttachToNext s this b) this)
          \<longleftrightarrow> f \<in> e_flags (elements s this))"
    by (simp add: flags_setAttachToNext)
  have f: "\<forall>f. f \<noteq> AttachedToPrevious \<longrightarrow> f \<noteq> NeedsResize \<longrightarrow>
         (f \<in> e_flags (elements (setAttachToPrevious s this b) this)
          \<longleftrightarrow> f \<in> e_flags (elements s this))"
    by (simp add: flags_setAttachToPrevious)
  have g: "pendingResize (setAttachToPrevious s this b) this
        \<longleftrightarrow> pendingResize s this \<or> isAttachedToPrevious s this \<noteq> b"
    by (auto simp: pendingResize_def isAttachedToPrevious_def flags_setAttachToPrevious)
  from a b c d e f g show ?thesis by blast
qed

theorem setAttachTo_flags_witness:
  "isAttachedToNext (setAttachToNext exStore 1 True) 1
   \<and> isAttachedToPrevious (setAttachToPrevious exStore 1 True) 1
   \<and> setAttachToNext exStore 1 False = exStore
   \<and> setAttachToPrevious exStore 1 False = exStore
   \<and> HiddenByGroup \<notin> e_flags (elements (setAttachToNext exStore 1 True) 1)
   \<and> HiddenByGroup \<notin> e_flags (elements (setAttachToPrevious exStore 1 True) 1)
   \<and> pendingResize (setAttachToPrevious exStore 1 True) 1"
proof -
  have n: "\<not> isAttachedToNext exStore 1" "\<not> isAttachedToPrevious exStore 1"
    "\<not> pendingResize exStore 1" "HiddenByGroup \<notin> e_flags (elements exStore 1)"
    by (simp_all add: isAttachedToNext_def isAttachedToPrevious_def pendingResize_def
        exStore_def exElement_def)
  from setAttachTo_flags [of exStore 1 True] setAttachTo_flags [of exStore 1 False] n
  show ?thesis by auto
qed

text \<open>
  The claim as the specification words it, that every flag other than the one named is
  unchanged in every case, fails for \<open>setAttachToPrevious\<close>: the element 1 of the example
  has no flag set, and \<open>setAttachToPrevious(true)\<close> sets \<open>NeedsResize\<close> as well.
\<close>

theorem setAttachToPrevious_changes_NeedsResize:
  "NeedsResize \<noteq> AttachedToPrevious
   \<and> NeedsResize \<notin> e_flags (elements exStore 1)
   \<and> NeedsResize \<in> e_flags (elements (setAttachToPrevious exStore 1 True) 1)"
  by (simp add: flags_setAttachToPrevious exStore_def exElement_def)

subsection \<open>Recounting attach to previous\<close>


lemma previousInBlocks_cong:
  "blocks s' = blocks s \<Longrightarrow>
   (\<And>q. e_block (elements s' q) = e_block (elements s q)) \<Longrightarrow>
   (\<And>q. e_indexInBlock (elements s' q) = e_indexInBlock (elements s q)) \<Longrightarrow>
   previousInBlocks s' this = previousInBlocks s this"
  by (simp add: previousInBlocks_def Let_def split: option.split)

lemma computeIsAttachToPrevious_cong:
  "items s' = items s \<Longrightarrow>
   (\<And>q. e_data (elements s' q) = e_data (elements s q)) \<Longrightarrow>
   (\<And>h. h_peerIsSelf (histories s' h) = h_peerIsSelf (histories s h)) \<Longrightarrow>
   computeIsAttachToPrevious s' this previous = computeIsAttachToPrevious s this previous"
  by (simp add: computeIsAttachToPrevious_def data_def Let_def)

lemma block_setAttachToNext:
  "e_block (elements (setAttachToNext s p b) q) = e_block (elements s q)"
  "e_indexInBlock (elements (setAttachToNext s p b) q) = e_indexInBlock (elements s q)"
  "e_data (elements (setAttachToNext s p b) q) = e_data (elements s q)"
  by (subst elements_setAttachToNext, simp)+

lemma block_setAttachToPrevious:
  "e_block (elements (setAttachToPrevious s p b) q) = e_block (elements s q)"
  "e_indexInBlock (elements (setAttachToPrevious s p b) q) = e_indexInBlock (elements s q)"
  "e_data (elements (setAttachToPrevious s p b) q) = e_data (elements s q)"
  by (subst elements_setAttachToPrevious, simp)+

lemma isAttachedToPrevious_set:
  "isAttachedToPrevious (setAttachToPrevious s p b) p = b"
  by (auto simp: isAttachedToPrevious_def flags_setAttachToPrevious)

lemma isAttachedToNext_setPrevious:
  "isAttachedToNext (setAttachToPrevious s p b) q = isAttachedToNext s q"
  by (auto simp: isAttachedToNext_def flags_setAttachToPrevious)

lemma isAttachedToNext_set:
  "isAttachedToNext (setAttachToNext s p b) p = b"
  by (auto simp: isAttachedToNext_def flags_setAttachToNext)

lemma recountAttachToPreviousInBlocks_returns:
  "previousInBlocks s this = Inr r \<Longrightarrow> \<exists>s'. recountAttachToPreviousInBlocks s this = Inr s'"
  by (cases r) (simp_all add: recountAttachToPreviousInBlocks_def Let_def)


lemma previousInBlocks_exStore:
  "previousInBlocks exStore 1 = Inr (Some 0)" "previousInBlocks exStore 0 = Inr None"
  "previousInBlocks exStore 3 = Inr (Some 2)"
  by (simp_all add: previousInBlocks_def exStore_def exElement_def)

text \<open>
  C5. When \<open>recountAttachToPreviousInBlocks\<close> returns and there is a previous element
  in the blocks, the attached-to-next flag of that element and the attached-to-previous
  flag of this element are equal, both to \<open>computeIsAttachToPrevious(previous)\<close>
  (which the call does not change); when there is no previous element, the
  attached-to-previous flag of this element is false. The previous element in the
  blocks is the same after the call as before.
\<close>

theorem recountAttachToPreviousInBlocks_flags:
  assumes "recountAttachToPreviousInBlocks s this = Inr s'"
  shows "(case previousInBlocks s this of
            Inr (Some previous) \<Rightarrow>
              isAttachedToNext s' previous = isAttachedToPrevious s' this
              \<and> isAttachedToPrevious s' this = computeIsAttachToPrevious s this previous
              \<and> computeIsAttachToPrevious s' this previous
                  = computeIsAttachToPrevious s this previous
          | Inr None \<Rightarrow> \<not> isAttachedToPrevious s' this
          | Inl f \<Rightarrow> False)
         \<and> previousInBlocks s' this = previousInBlocks s this"
proof (cases "previousInBlocks s this")
  case (Inl f)
  with assms show ?thesis by (simp add: recountAttachToPreviousInBlocks_def)
next
  case (Inr r)
  show ?thesis
  proof (cases r)
    case None
    with Inr assms have s': "s' = setAttachToPrevious s this False"
      by (simp add: recountAttachToPreviousInBlocks_def)
    have "previousInBlocks s' this = previousInBlocks s this"
      unfolding s'
      by (rule previousInBlocks_cong) (simp_all add: setAttachToPrevious_frame block_setAttachToPrevious)
    with Inr None s' show ?thesis by (simp add: isAttachedToPrevious_set)
  next
    case (Some previous)
    define a where "a = computeIsAttachToPrevious s this previous"
    from Some Inr assms have s': "s' = setAttachToPrevious (setAttachToNext s previous a) this a"
      by (simp add: recountAttachToPreviousInBlocks_def a_def Let_def)
    have p: "previousInBlocks s' this = previousInBlocks s this"
      unfolding s'
      by (rule previousInBlocks_cong)
        (simp_all add: setAttachToPrevious_frame block_setAttachToPrevious
          setAttachToNext_frame block_setAttachToNext)
    have c: "computeIsAttachToPrevious s' this previous = a"
      unfolding s' a_def
      by (rule computeIsAttachToPrevious_cong)
        (simp_all add: setAttachToPrevious_frame block_setAttachToPrevious
          setAttachToNext_frame block_setAttachToNext)
    have n: "isAttachedToNext s' previous = a"
      unfolding s' by (simp add: isAttachedToNext_setPrevious isAttachedToNext_set)
    have v: "isAttachedToPrevious s' this = a"
      unfolding s' by (simp add: isAttachedToPrevious_set)
    from p c n v Inr Some show ?thesis by (simp add: a_def)
  qed
qed

text \<open>
  In the example the element 1 attaches to the element 0, and the element 0 has no
  previous element.
\<close>

theorem recountAttachToPreviousInBlocks_flags_witness:
  "(\<exists>s'. recountAttachToPreviousInBlocks exStore 1 = Inr s'
         \<and> isAttachedToNext s' 0 \<and> isAttachedToPrevious s' 1)
   \<and> (\<exists>s'. recountAttachToPreviousInBlocks exStore 0 = Inr s'
         \<and> \<not> isAttachedToPrevious s' 0)"
proof -
  obtain s1 where s1: "recountAttachToPreviousInBlocks exStore 1 = Inr s1"
    using recountAttachToPreviousInBlocks_returns [OF previousInBlocks_exStore(1)] by blast
  obtain s0 where s0: "recountAttachToPreviousInBlocks exStore 0 = Inr s0"
    using recountAttachToPreviousInBlocks_returns [OF previousInBlocks_exStore(2)] by blast
  have c: "computeIsAttachToPrevious exStore 1 0"
    by (simp add: computeIsAttachToPrevious_def exStore_def exItem_def exElement_def data_def
        Has_HistoryMessageDate_def abs_secsTo_less)
  from recountAttachToPreviousInBlocks_flags [OF s1] c
  have "isAttachedToNext s1 0 \<and> isAttachedToPrevious s1 1"
    by (simp del: One_nat_def add: previousInBlocks_exStore)
  moreover from recountAttachToPreviousInBlocks_flags [OF s0]
  have "\<not> isAttachedToPrevious s0 0"
    by (simp del: One_nat_def add: previousInBlocks_exStore)
  ultimately show ?thesis using s0 s1 by blast
qed

subsection \<open>The date separator\<close>


lemma data_setPendingResize: "data (setPendingResize s p) q = data s q"
  by (simp add: data_def elements_setPendingResize)

lemma setDisplayDate_unchanged:
  "Has_HistoryMessageDate (items s (data s this)) = b \<Longrightarrow> setDisplayDate s this b = s"
  by (auto simp: setDisplayDate_def Let_def)

lemma setDisplayDate_changed:
  "Has_HistoryMessageDate (items s (data s this)) \<noteq> b \<Longrightarrow>
   setDisplayDate s this b =
     setPendingResize
       (updItem s (data s this)
          (\<lambda>it. it\<lparr>i_HistoryMessageDate := (if b then Some (i_date it) else None)\<rparr>)) this"
  by (auto simp: setDisplayDate_def Let_def)

lemma data_setDisplayDate: "data (setDisplayDate s this b) q = data s q"
  by (simp add: setDisplayDate_def Let_def data_setPendingResize)
    (simp add: data_def updItem_def)

lemma Has_setDisplayDate:
  "Has_HistoryMessageDate (items (setDisplayDate s this b) (data s this)) = b"
  by (auto simp: setDisplayDate_def Let_def items_setPendingResize updItem_def
      Has_HistoryMessageDate_def)

lemma pendingResize_setDisplayDate:
  "pendingResize (setDisplayDate s this b) this \<longleftrightarrow>
     pendingResize s this \<or> Has_HistoryMessageDate (items s (data s this)) \<noteq> b"
  by (auto simp: setDisplayDate_def Let_def pendingResize_def flags_setPendingResize updItem_def)

lemma recountDisplayDateInBlocks_eq:
  "recountDisplayDateInBlocks env s this = Inr s' \<Longrightarrow>
   s' = setDisplayDate s this (displayDateWanted env s this)"
  by (auto simp: recountDisplayDateInBlocks_def displayDateWanted_def Let_def
      split: sum.splits option.splits if_splits)

lemma recountDisplayDateInBlocks_returns:
  "i_isEmpty (items s (data s this)) \<or> previousInBlocks s this = Inr r \<Longrightarrow>
   \<exists>s'. recountDisplayDateInBlocks env s this = Inr s'"
  by (cases r) (auto simp: recountDisplayDateInBlocks_def Let_def)

text \<open>
  C4. When \<open>recountDisplayDateInBlocks\<close> returns, the item of the element has the
  \<open>HistoryMessageDate\<close> component exactly when the item is not empty and there is no
  previous element in the blocks, or the previous item is empty, or the calendar dates
  of the two items differ; the new store is that of \<open>setDisplayDate\<close> at this value.
  \<open>setDisplayDate(b)\<close> returns the store it was given when the component is present
  exactly when \<open>b\<close> holds; otherwise it adds or removes the component, so that it is
  present exactly when \<open>b\<close> holds, and calls \<open>setPendingResize\<close>, which marks the
  pending resize.
\<close>

theorem recountDisplayDateInBlocks_date:
  assumes "recountDisplayDateInBlocks env s this = Inr s'"
  shows "(Has_HistoryMessageDate (items s' (data s' this)) \<longleftrightarrow>
            \<not> i_isEmpty (items s (data s this))
            \<and> (case previousInBlocks s this of
                 Inr None \<Rightarrow> True
               | Inr (Some previous) \<Rightarrow>
                   i_isEmpty (items s (data s previous))
                   \<or> dateOf env (i_date (items s (data s previous)))
                       \<noteq> dateOf env (i_date (items s (data s this)))
               | Inl f \<Rightarrow> False))
         \<and> s' = setDisplayDate s this (Has_HistoryMessageDate (items s' (data s' this)))
         \<and> (Has_HistoryMessageDate (items s (data s this)) = b \<longrightarrow>
              setDisplayDate s this b = s)
         \<and> (Has_HistoryMessageDate (items s (data s this)) \<noteq> b \<longrightarrow>
              setDisplayDate s this b =
                setPendingResize
                  (updItem s (data s this)
                     (\<lambda>it. it\<lparr>i_HistoryMessageDate :=
                                 (if b then Some (i_date it) else None)\<rparr>)) this
              \<and> Has_HistoryMessageDate (items (setDisplayDate s this b) (data s this)) = b
              \<and> pendingResize (setDisplayDate s this b) this)"
proof -
  let ?w = "displayDateWanted env s this"
  from assms have s': "s' = setDisplayDate s this ?w"
    by (rule recountDisplayDateInBlocks_eq)
  have h: "Has_HistoryMessageDate (items s' (data s' this)) = ?w"
    unfolding s' by (simp add: data_setDisplayDate Has_setDisplayDate)
  have 1: "Has_HistoryMessageDate (items s' (data s' this)) \<longleftrightarrow>
            \<not> i_isEmpty (items s (data s this))
            \<and> (case previousInBlocks s this of
                 Inr None \<Rightarrow> True
               | Inr (Some previous) \<Rightarrow>
                   i_isEmpty (items s (data s previous))
                   \<or> dateOf env (i_date (items s (data s previous)))
                       \<noteq> dateOf env (i_date (items s (data s this)))
               | Inl f \<Rightarrow> False)"
    unfolding h by (simp add: displayDateWanted_def)
  have 2: "s' = setDisplayDate s this (Has_HistoryMessageDate (items s' (data s' this)))"
    unfolding h by (rule s')
  have 3: "Has_HistoryMessageDate (items s (data s this)) = b \<longrightarrow>
              setDisplayDate s this b = s"
    by (simp add: setDisplayDate_unchanged)
  have 4: "Has_HistoryMessageDate (items s (data s this)) \<noteq> b \<longrightarrow>
              setDisplayDate s this b =
                setPendingResize
                  (updItem s (data s this)
                     (\<lambda>it. it\<lparr>i_HistoryMessageDate :=
                                 (if b then Some (i_date it) else None)\<rparr>)) this
              \<and> Has_HistoryMessageDate (items (setDisplayDate s this b) (data s this)) = b
              \<and> pendingResize (setDisplayDate s this b) this"
  proof
    assume n: "Has_HistoryMessageDate (items s (data s this)) \<noteq> b"
    have "pendingResize (setDisplayDate s this b) this"
      using n by (simp add: pendingResize_setDisplayDate)
    with setDisplayDate_changed [OF n] Has_setDisplayDate [of s this b]
    show "setDisplayDate s this b =
                setPendingResize
                  (updItem s (data s this)
                     (\<lambda>it. it\<lparr>i_HistoryMessageDate :=
                                 (if b then Some (i_date it) else None)\<rparr>)) this
              \<and> Has_HistoryMessageDate (items (setDisplayDate s this b) (data s this)) = b
              \<and> pendingResize (setDisplayDate s this b) this"
      by blast
  qed
  from 1 2 3 4 show ?thesis by blast
qed

text \<open>
  In the example the element 0 has no previous element: it gets the date separator and
  a pending resize. The element 1 is of the same day as the element 0: the store is
  unchanged.
\<close>

theorem recountDisplayDateInBlocks_date_witness:
  "(\<exists>s'. recountDisplayDateInBlocks exEnv exStore 0 = Inr s'
         \<and> Has_HistoryMessageDate (items s' (data s' 0)) \<and> pendingResize s' 0)
   \<and> recountDisplayDateInBlocks exEnv exStore 1 = Inr exStore"
proof -
  obtain s0 where s0: "recountDisplayDateInBlocks exEnv exStore 0 = Inr s0"
    using recountDisplayDateInBlocks_returns [of exStore 0 None exEnv]
    by (auto simp del: One_nat_def simp add: previousInBlocks_exStore)
  obtain s1 where s1: "recountDisplayDateInBlocks exEnv exStore 1 = Inr s1"
    using recountDisplayDateInBlocks_returns [of exStore 1 "Some 0" exEnv]
    by (auto simp del: One_nat_def simp add: previousInBlocks_exStore)
  have e: "\<not> i_isEmpty (items exStore (data exStore 0))"
    "\<not> i_isEmpty (items exStore (data exStore 1))"
    "\<not> Has_HistoryMessageDate (items exStore (data exStore 0))"
    "\<not> Has_HistoryMessageDate (items exStore (data exStore 1))"
    "dateOf exEnv (i_date (items exStore (data exStore 0)))
       = dateOf exEnv (i_date (items exStore (data exStore 1)))"
    by (simp_all add: exStore_def exItem_def exElement_def exEnv_def data_def
        Has_HistoryMessageDate_def)
  note t0 = recountDisplayDateInBlocks_date [OF s0, of True]
  from t0 e have h: "Has_HistoryMessageDate (items s0 (data s0 0))"
    by (simp del: One_nat_def add: previousInBlocks_exStore)
  from t0 h have q: "s0 = setDisplayDate exStore 0 True"
    by simp
  from t0 e(3) have r: "pendingResize (setDisplayDate exStore 0 True) 0"
    by blast
  from h r have "Has_HistoryMessageDate (items s0 (data s0 0)) \<and> pendingResize s0 0"
    unfolding q by simp
  moreover have "s1 = exStore"
  proof -
    note t1 = recountDisplayDateInBlocks_date [OF s1, of False]
    from t1 e have h1: "\<not> Has_HistoryMessageDate (items s1 (data s1 1))"
      by (simp del: One_nat_def add: previousInBlocks_exStore)
    from t1 h1 have q1: "s1 = setDisplayDate exStore 1 False"
      by (simp del: One_nat_def)
    from t1 e(4) have "setDisplayDate exStore 1 False = exStore"
      by (simp del: One_nat_def)
    with q1 show ?thesis by simp
  qed
  ultimately show ?thesis using s0 s1 by blast
qed

subsection \<open>Construction and the group component\<close>


lemma elements_updElement:
  "elements (updElement s p f) q = (if q = p then f (elements s p) else elements s q)"
  by (simp add: updElement_def)

lemma elements_updGroup:
  "elements (updGroup s p f) q =
     (if q = p then (elements s p)\<lparr>e_Group := map_option f (e_Group (elements s p))\<rparr>
      else elements s q)"
  by (simp add: updGroup_def updElement_def)

lemma elements_requests:
  "elements (requestViewResize s p) = elements s"
  "elements (requestItemRepaint s i) = elements s"
  "elements (invalidateChatsListEntry s i) = elements s"
  "elements (registerItemView s p) = elements s"
  by (simp_all add: store_defs)

lemma items_frame:
  "items (updElement s p f) = items s"
  "items (updGroup s p g) = items s"
  "items (requestViewResize s p) = items s"
  "items (registerItemView s p) = items s"
  "items (AddComponents_Group s p) = items s"
  by (simp_all add: store_defs updGroup_def AddComponents_Group_def)

lemma elements_AddComponents_Group:
  "elements (AddComponents_Group s p) q =
     (if q = p then
        (case e_Group (elements s p) of
           None \<Rightarrow> (elements s p)\<lparr>e_Group := Some \<lparr>groupId = 0, leader = None, others = []\<rparr>\<rparr>
         | Some g \<Rightarrow> elements s p)
      else elements s q)"
  by (simp add: AddComponents_Group_def updElement_def)

lemma Get_Group_initGroup:
  "Get_Group (initGroup s this) this =
     (if i_groupId (items s (e_data (elements s this))) \<noteq> 0
      then Some ((case e_Group (elements s this) of
                    None \<Rightarrow> \<lparr>groupId = 0, leader = None, others = []\<rparr>
                  | Some g \<Rightarrow> g)
                 \<lparr>groupId := i_groupId (items s (e_data (elements s this))),
                  leader := Some this\<rparr>)
      else e_Group (elements s this))"
  by (simp add: initGroup_def Let_def Get_Group_def elements_updGroup
      elements_AddComponents_Group split: option.split)

lemma initGroup_frame:
  "items (initGroup s this) = items s"
  "e_data (elements (initGroup s this) q) = e_data (elements s q)"
  by (simp_all add: initGroup_def Let_def items_frame elements_updGroup
      elements_AddComponents_Group split: option.split)

text \<open>
  C10. Right after construction the element has a \<open>Group\<close> component exactly when
  \<open>groupId()\<close> of its item is not null; the component, when present, has the element
  itself as the leader and the group id of the item. The item is the one the constructor
  was given.
\<close>

theorem Element_ctor_Group:
  "(Get_Group (Element_ctor env s this dataArg context) this \<noteq> None
      \<longleftrightarrow> i_groupId (items s dataArg) \<noteq> 0)
   \<and> (\<forall>g. Get_Group (Element_ctor env s this dataArg context) this = Some g \<longrightarrow>
          leader g = Some this \<and> groupId g = i_groupId (items s dataArg))
   \<and> data (Element_ctor env s this dataArg context) this = dataArg"
proof -
  let ?s2 = "registerItemView
     (s\<lparr>elements := (elements s)(this :=
         (memberDefaults env)\<lparr>e_data := dataArg,
            e_media := (case i_media (items s dataArg) of
                      Some dm \<Rightarrow> Some (createView env dm this)
                    | None \<Rightarrow> None),
            e_context := context, e_Group := None\<rparr>)\<rparr>) this"
  have c: "Element_ctor env s this dataArg context = initGroup ?s2 this"
    by (simp add: Element_ctor_def Let_def)
  have e: "e_data (elements ?s2 this) = dataArg" "e_Group (elements ?s2 this) = None"
    "items ?s2 = items s"
    by (simp_all add: registerItemView_def)
  have g: "Get_Group (initGroup ?s2 this) this =
     (if i_groupId (items s dataArg) \<noteq> 0
      then Some \<lparr>groupId = i_groupId (items s dataArg), leader = Some this, others = []\<rparr>
      else None)"
    unfolding Get_Group_initGroup e by simp
  have d: "data (initGroup ?s2 this) this = dataArg"
    unfolding data_def initGroup_frame e ..
  show ?thesis unfolding c g d by auto
qed

text \<open>
  In the example the item 2 belongs to the group 9 and the item 1 to no group.
\<close>

theorem Element_ctor_Group_witness:
  "(\<exists>g. Get_Group (Element_ctor exEnv exStore 4 2 History) 4 = Some g
        \<and> leader g = Some 4 \<and> groupId g = 9)
   \<and> Get_Group (Element_ctor exEnv exStore 4 1 History) 4 = None"
proof -
  have i: "i_groupId (items exStore 2) = 9" "i_groupId (items exStore 1) = 0"
    by (simp_all add: exStore_def exItem_def)
  from Element_ctor_Group [of exEnv exStore 4 2 History]
    Element_ctor_Group [of exEnv exStore 4 1 History] i
  show ?thesis by auto
qed

subsection \<open>Group members and group leaders\<close>

lemma Get_Group_upd:
  "Get_Group (updGroup s p f) q = (if q = p then map_option f (Get_Group s p) else Get_Group s q)"
  "Get_Group (updElement s p h) q = (if q = p then e_Group (h (elements s p)) else Get_Group s q)"
  "Get_Group (requestViewResize s p) q = Get_Group s q"
  "Get_Group (invalidateChatsListEntry s i) q = Get_Group s q"
  by (simp_all add: Get_Group_def elements_updGroup elements_updElement elements_requests)

lemma isHiddenByGroup_upd:
  "isHiddenByGroup (updGroup s p f) q = isHiddenByGroup s q"
  "isHiddenByGroup (updElement s p h) q =
     (if q = p then HiddenByGroup \<in> e_flags (h (elements s p)) else isHiddenByGroup s q)"
  "isHiddenByGroup (requestViewResize s p) q = isHiddenByGroup s q"
  "isHiddenByGroup (invalidateChatsListEntry s i) q = isHiddenByGroup s q"
  by (simp_all add: isHiddenByGroup_def elements_updGroup elements_updElement elements_requests)

lemma media_upd:
  "media (updGroup s p f) q = media s q"
  "media (updElement s p h) q = (if q = p then e_media (h (elements s p)) else media s q)"
  "media (requestViewResize s p) q = media s q"
  "media (invalidateChatsListEntry s i) q = media s q"
  by (simp_all add: media_def elements_updGroup elements_updElement elements_requests)

lemma groupOthers_eq: "Get_Group s p = Some g \<Longrightarrow> groupOthers s p = others g"
  by (simp add: groupOthers_def)

text \<open>
  What \<open>makeGroupMember\<close> computes when its preconditions hold. An element that leads
  its group is hidden, gets the given leader and loses its others, and the call returns.
  An element that does not lead its group only gets the given leader; for it the call
  returns exactly when it is hidden already and has no others, and otherwise an
  \<open>Ensures\<close> fails.
\<close>

lemma makeGroupMember_of_leader:
  assumes "leaderArg \<noteq> this" and "Get_Group s this = Some g" and "leader g = Some this"
  shows "\<exists>s'. makeGroupMember env s this leaderArg = Inr s'
              \<and> isHiddenByGroup s' this
              \<and> Get_Group s' this = Some (g\<lparr>leader := Some leaderArg, others := []\<rparr>)"
proof -
  have eg: "e_Group (elements s this) = Some g"
    using assms(2) by (simp add: Get_Group_def)
  from assms eg show ?thesis
    by (auto simp: makeGroupMember_def Let_def Get_Group_upd isHiddenByGroup_upd
        groupOthers_def elements_updElement split: option.splits)
qed

lemma makeGroupMember_of_member:
  assumes "leaderArg \<noteq> this" and "Get_Group s this = Some g" and "leader g \<noteq> Some this"
  shows "makeGroupMember env s this leaderArg =
           (if isHiddenByGroup s this \<and> others g = []
            then Inr (if leader g \<noteq> Some leaderArg
                      then updGroup s this (\<lambda>g. g\<lparr>leader := Some leaderArg\<rparr>) else s)
            else Inl EnsuresFailed)"
  using assms
  by (auto simp: makeGroupMember_def Let_def Get_Group_upd isHiddenByGroup_upd groupOthers_def)

text \<open>
  C2. Let the preconditions of \<open>makeGroupMember(leader)\<close> hold: the leader is not the
  element itself, and the element has a \<open>Group\<close> component. The call returns when the
  element leads its group, or is hidden already and has no others; in every other state
  an \<open>Ensures\<close> fails. Whenever the call returns, the element is hidden by the group,
  \<open>group->others\<close> is empty and \<open>group->leader\<close> is the given leader (the other
  members of the component are as before).
\<close>

theorem makeGroupMember_ensures:
  assumes "leaderArg \<noteq> this" and "Get_Group s this = Some g"
  shows "(leader g = Some this \<or> (isHiddenByGroup s this \<and> others g = []) \<longrightarrow>
            (\<exists>s'. makeGroupMember env s this leaderArg = Inr s'))
         \<and> (\<not> (leader g = Some this \<or> (isHiddenByGroup s this \<and> others g = [])) \<longrightarrow>
            makeGroupMember env s this leaderArg = Inl EnsuresFailed)
         \<and> (\<forall>s'. makeGroupMember env s this leaderArg = Inr s' \<longrightarrow>
            isHiddenByGroup s' this
            \<and> Get_Group s' this = Some (g\<lparr>leader := Some leaderArg, others := []\<rparr>))"
proof (cases "leader g = Some this")
  case True
  from makeGroupMember_of_leader [OF assms True, of env] show ?thesis
    using True by auto
next
  case False
  note m = makeGroupMember_of_member [OF assms False, of env]
  have u: "isHiddenByGroup (updGroup s this (\<lambda>g. g\<lparr>leader := Some leaderArg\<rparr>)) this
             = isHiddenByGroup s this"
    "Get_Group (updGroup s this (\<lambda>g. g\<lparr>leader := Some leaderArg\<rparr>)) this
       = Some (g\<lparr>leader := Some leaderArg\<rparr>)"
    using assms(2) by (simp_all add: isHiddenByGroup_upd Get_Group_upd)
  have e: "others g = [] \<Longrightarrow> g\<lparr>leader := Some leaderArg, others := []\<rparr>
             = g\<lparr>leader := Some leaderArg\<rparr>"
    by simp
  have k: "leader g = Some leaderArg \<Longrightarrow> others g = [] \<Longrightarrow>
             g\<lparr>leader := Some leaderArg, others := []\<rparr> = g"
    by simp
  show ?thesis
  proof (cases "isHiddenByGroup s this \<and> others g = []")
    case True
    with m u e k assms(2) False show ?thesis by (cases "leader g = Some leaderArg") auto
  next
    case no: False
    with m False show ?thesis by auto
  qed
qed

text \<open>
  In the album of the example the element 2 leads the group and has the element 3 as its
  other. Made a member of the element 3 it is hidden, its others are emptied and its
  leader is the element 3. The element 3, when it is not hidden, does not lead and is
  made a member of the element 1, fails the \<open>Ensures\<close>.
\<close>

lemma Get_Group_exGrouped:
  "Get_Group exGrouped 2 = Some \<lparr>groupId = 9, leader = Some 2, others = [3]\<rparr>"
  "Get_Group exGrouped 3 = Some \<lparr>groupId = 9, leader = Some 2, others = []\<rparr>"
  "\<not> isHiddenByGroup exGrouped 2" "isHiddenByGroup exGrouped 3"
  by (simp_all add: Get_Group_def isHiddenByGroup_def exGrouped_def exStore_def exElement_def)

theorem makeGroupMember_ensures_witness:
  "(\<exists>s'. makeGroupMember exEnv exGrouped 2 3 = Inr s' \<and> isHiddenByGroup s' 2
        \<and> Get_Group s' 2 = Some \<lparr>groupId = 9, leader = Some 3, others = []\<rparr>)
   \<and> groupOthers exGrouped 2 = [3] \<and> \<not> isHiddenByGroup exGrouped 2
   \<and> makeGroupMember exEnv
        (updElement exGrouped 3 (\<lambda>el. el\<lparr>e_flags := {}\<rparr>)) 3 1 = Inl EnsuresFailed"
proof -
  have n: "(3::nat) \<noteq> 2" "(1::nat) \<noteq> 3" by simp_all
  note t = makeGroupMember_ensures [OF n(1) Get_Group_exGrouped(1), of exEnv]
  from t obtain s' where s': "makeGroupMember exEnv exGrouped 2 3 = Inr s'"
    by auto
  with t have "isHiddenByGroup s' 2
      \<and> Get_Group s' 2 = Some \<lparr>groupId = 9, leader = Some 3, others = []\<rparr>"
    by simp
  with s' have a: "\<exists>s'. makeGroupMember exEnv exGrouped 2 3 = Inr s' \<and> isHiddenByGroup s' 2
        \<and> Get_Group s' 2 = Some \<lparr>groupId = 9, leader = Some 3, others = []\<rparr>"
    by blast
  have b: "groupOthers exGrouped 2 = [3]"
    by (simp add: groupOthers_def Get_Group_exGrouped)
  let ?s = "updElement exGrouped 3 (\<lambda>el. el\<lparr>e_flags := {}\<rparr>)"
  have g: "Get_Group ?s 3 = Some \<lparr>groupId = 9, leader = Some 2, others = []\<rparr>"
    and h: "\<not> isHiddenByGroup ?s 3"
    by (simp_all add: Get_Group_def isHiddenByGroup_def elements_updElement exGrouped_def
        exStore_def exElement_def)
  from makeGroupMember_ensures [OF n(2) g, of exEnv] h
  have c: "makeGroupMember exEnv ?s 3 1 = Inl EnsuresFailed"
    by simp
  from a b c Get_Group_exGrouped(3) show ?thesis by blast
qed

lemma resetGroupMedia_reads:
  "Get_Group (resetGroupMedia env s p os) q = Get_Group s q"
  "isHiddenByGroup (resetGroupMedia env s p os) q = isHiddenByGroup s q"
  "os \<noteq> [] \<Longrightarrow> media (resetGroupMedia env s p os) p = Some (HistoryGroupedMedia env p os)"
  by (simp_all add: resetGroupMedia_def Let_def Get_Group_def isHiddenByGroup_def media_def
      elements_updElement elements_requests split: option.split)

lemma groupOthers_updElement_media:
  "groupOthers (updElement s p (\<lambda>el. el\<lparr>e_media := x\<rparr>)) q = groupOthers s q"
  by (simp add: groupOthers_def Get_Group_def elements_updElement)

lemma isHiddenByGroup_updElement_media:
  "isHiddenByGroup (updElement s p (\<lambda>el. el\<lparr>e_media := x\<rparr>)) q = isHiddenByGroup s q"
  by (simp add: isHiddenByGroup_def elements_updElement)

text \<open>
  What \<open>makeGroupLeader\<close> computes: the \<open>Ensures\<close> fails exactly when the element
  leads its group already and is hidden all the same.
\<close>

lemma makeGroupLeader_result:
  assumes g: "Get_Group s this = Some g"
  shows "\<exists>s3. makeGroupLeader env s this othersArg =
                (if leader g = Some this \<and> isHiddenByGroup s this
                 then Inl EnsuresFailed else Inr s3)
              \<and> Get_Group s3 this = Some (g\<lparr>leader := Some this, others := othersArg\<rparr>)
              \<and> (isHiddenByGroup s3 this
                    \<longleftrightarrow> leader g = Some this \<and> isHiddenByGroup s this)
              \<and> ((case media s this of None \<Rightarrow> True
                     | Some m \<Rightarrow> \<not> fst (applyGroup env m othersArg))
                   \<and> othersArg \<noteq> [] \<longrightarrow>
                  media s3 this = Some (HistoryGroupedMedia env this othersArg))"
proof -
  define s1 where "s1 = (if leader g \<noteq> Some this then
                       (let t1 = updGroup s this (\<lambda>g. g\<lparr>leader := Some this\<rparr>);
                            t2 = updElement t1 this
                                   (\<lambda>el. el\<lparr>e_flags := e_flags el - {HiddenByGroup}\<rparr>)
                        in requestViewResize t2 this)
                     else s)"
  define s2 where "s2 = updGroup s1 this (\<lambda>g. g\<lparr>others := othersArg\<rparr>)"
  define s3 where "s3 = (case e_media (elements s2 this) of
                       None \<Rightarrow>
                         invalidateChatsListEntry
                           (resetGroupMedia env s2 this (groupOthers s2 this)) (data s2 this)
                     | Some m \<Rightarrow>
                         (let (applied, m') = applyGroup env m (groupOthers s2 this);
                              t = updElement s2 this (\<lambda>el. el\<lparr>e_media := Some m'\<rparr>)
                          in if \<not> applied then
                               invalidateChatsListEntry
                                 (resetGroupMedia env t this (groupOthers t this)) (data t this)
                             else t))"
  have eg: "e_Group (elements s this) = Some g"
    using g by (simp add: Get_Group_def)
  have g1: "Get_Group s1 this = Some (g\<lparr>leader := Some this\<rparr>)"
    using g eg by (auto simp: s1_def Let_def Get_Group_upd elements_updGroup)
  have m1: "media s1 this = media s this"
    by (simp add: s1_def Let_def media_def elements_updElement elements_updGroup
        elements_requests)
  have h1: "isHiddenByGroup s1 this \<longleftrightarrow> leader g = Some this \<and> isHiddenByGroup s this"
    by (simp add: s1_def Let_def isHiddenByGroup_def elements_updElement elements_updGroup
        elements_requests)
  have g2: "Get_Group s2 this = Some (g\<lparr>leader := Some this, others := othersArg\<rparr>)"
    by (simp add: s2_def Get_Group_upd g1)
  have m2: "media s2 this = media s this"
    by (simp add: s2_def media_upd m1)
  have h2: "isHiddenByGroup s2 this \<longleftrightarrow> leader g = Some this \<and> isHiddenByGroup s this"
    by (simp add: s2_def isHiddenByGroup_upd h1)
  have o2: "groupOthers s2 this = othersArg"
    by (simp add: groupOthers_def g2)
  have eg2: "e_Group (elements s2 this) = Some (g\<lparr>leader := Some this, others := othersArg\<rparr>)"
    using g2 by (simp add: Get_Group_def)
  have g3: "Get_Group s3 this = Some (g\<lparr>leader := Some this, others := othersArg\<rparr>)"
    using g2 eg2
    by (simp add: s3_def Let_def Get_Group_upd resetGroupMedia_reads
        split: option.split prod.split)
  have h3: "isHiddenByGroup s3 this \<longleftrightarrow> leader g = Some this \<and> isHiddenByGroup s this"
    using h2
    by (simp add: s3_def Let_def isHiddenByGroup_upd(1,3,4) resetGroupMedia_reads
        isHiddenByGroup_updElement_media split: option.split prod.split)
  have eq: "makeGroupLeader env s this othersArg =
              (if isHiddenByGroup s3 this then Inl EnsuresFailed else Inr s3)"
    unfolding makeGroupLeader_def g s3_def s2_def s1_def Let_def by simp
  have m3: "(case media s this of None \<Rightarrow> True
                | Some m \<Rightarrow> \<not> fst (applyGroup env m othersArg))
              \<and> othersArg \<noteq> [] \<longrightarrow>
             media s3 this = Some (HistoryGroupedMedia env this othersArg)"
  proof
    assume a: "(case media s this of None \<Rightarrow> True
                | Some m \<Rightarrow> \<not> fst (applyGroup env m othersArg))
              \<and> othersArg \<noteq> []"
    show "media s3 this = Some (HistoryGroupedMedia env this othersArg)"
    proof (cases "e_media (elements s2 this)")
      case None
      then have "s3 = invalidateChatsListEntry
                        (resetGroupMedia env s2 this othersArg) (data s2 this)"
        by (simp add: s3_def o2)
      with a show ?thesis by (simp add: media_upd resetGroupMedia_reads)
    next
      case (Some m)
      with m2 have "media s this = Some m" by (simp add: media_def)
      with a have na: "\<not> fst (applyGroup env m othersArg)" by simp
      obtain ap m' where ap: "applyGroup env m othersArg = (ap, m')"
        by (cases "applyGroup env m othersArg")
      with na have nap: "\<not> ap" by simp
      have "s3 = invalidateChatsListEntry
                   (resetGroupMedia env
                      (updElement s2 this (\<lambda>el. el\<lparr>e_media := Some m'\<rparr>)) this othersArg)
                   (data (updElement s2 this (\<lambda>el. el\<lparr>e_media := Some m'\<rparr>)) this)"
        by (simp add: s3_def Some o2 ap nap groupOthers_updElement_media Let_def)
      with a show ?thesis by (simp add: media_upd resetGroupMedia_reads)
    qed
  qed
  from eq h3 g3 m3 show ?thesis by auto
qed

text \<open>
  C6. Let the element have a \<open>Group\<close> component. \<open>makeGroupLeader(others)\<close> returns
  unless the element leads its group already and is hidden all the same, in which case
  the \<open>Ensures\<close> fails. Whenever the call returns, \<open>group->leader\<close> is the element
  itself, \<open>group->others\<close> is the given vector (the group id is as before), the element
  is not hidden by the group, and, when the element had no media or its media does not
  apply the group, and the vector is not empty, the media of the element is a
  \<open>HistoryGroupedMedia\<close> of the element and the vector.
\<close>

theorem makeGroupLeader_ensures:
  assumes "Get_Group s this = Some g"
  shows "(\<not> (leader g = Some this \<and> isHiddenByGroup s this) \<longrightarrow>
            (\<exists>s'. makeGroupLeader env s this othersArg = Inr s'))
         \<and> (leader g = Some this \<and> isHiddenByGroup s this \<longrightarrow>
            makeGroupLeader env s this othersArg = Inl EnsuresFailed)
         \<and> (\<forall>s'. makeGroupLeader env s this othersArg = Inr s' \<longrightarrow>
            Get_Group s' this = Some (g\<lparr>leader := Some this, others := othersArg\<rparr>)
            \<and> \<not> isHiddenByGroup s' this
            \<and> ((case media s this of None \<Rightarrow> True
                   | Some m \<Rightarrow> \<not> fst (applyGroup env m othersArg))
                 \<and> othersArg \<noteq> [] \<longrightarrow>
                media s' this = Some (HistoryGroupedMedia env this othersArg)))"
proof -
  from makeGroupLeader_result [OF assms, of env othersArg] obtain s3 where
    r: "makeGroupLeader env s this othersArg =
          (if leader g = Some this \<and> isHiddenByGroup s this
           then Inl EnsuresFailed else Inr s3)"
    and g3: "Get_Group s3 this = Some (g\<lparr>leader := Some this, others := othersArg\<rparr>)"
    and h3: "isHiddenByGroup s3 this \<longleftrightarrow> leader g = Some this \<and> isHiddenByGroup s this"
    and m3: "(case media s this of None \<Rightarrow> True
                | Some m \<Rightarrow> \<not> fst (applyGroup env m othersArg))
              \<and> othersArg \<noteq> [] \<longrightarrow>
             media s3 this = Some (HistoryGroupedMedia env this othersArg)"
    by blast
  show ?thesis
  proof (cases "leader g = Some this \<and> isHiddenByGroup s this")
    case True
    with r show ?thesis by simp
  next
    case False
    with r have e: "makeGroupLeader env s this othersArg = Inr s3" by simp
    from False h3 have h: "\<not> isHiddenByGroup s3 this" by simp
    from e g3 h m3 False show ?thesis by auto
  qed
qed

text \<open>
  In the album of the example the element 3 is a hidden member of the group of the
  element 2. Made the leader with the element 2 as its other, it leads itself, is not
  hidden any more, and its photo becomes an album. An element that leads its group and
  is hidden all the same fails the \<open>Ensures\<close>.
\<close>

theorem makeGroupLeader_ensures_witness:
  "(\<exists>s'. makeGroupLeader exEnv exGrouped 3 [2] = Inr s'
        \<and> Get_Group s' 3 = Some \<lparr>groupId = 9, leader = Some 3, others = [2]\<rparr>
        \<and> \<not> isHiddenByGroup s' 3
        \<and> media s' 3 = Some (Album 3 [2]))
   \<and> isHiddenByGroup exGrouped 3
   \<and> makeGroupLeader exEnv
        (updElement exGrouped 2 (\<lambda>el. el\<lparr>e_flags := {HiddenByGroup}\<rparr>)) 2 [3]
      = Inl EnsuresFailed"
proof -
  note t = makeGroupLeader_ensures [OF Get_Group_exGrouped(2), of exEnv "[2]"]
  from t obtain s' where s': "makeGroupLeader exEnv exGrouped 3 [2] = Inr s'"
    by auto
  have m: "media exGrouped 3 = Some (Photo 3)"
    "applyGroup exEnv (Photo 3) [2] = (False, Photo 3)"
    "HistoryGroupedMedia exEnv = Album"
    by (simp_all add: media_def exGrouped_def exStore_def exElement_def exEnv_def)
  from t s' m have "Get_Group s' 3 = Some \<lparr>groupId = 9, leader = Some 3, others = [2]\<rparr>
        \<and> \<not> isHiddenByGroup s' 3 \<and> media s' 3 = Some (Album 3 [2])"
    by simp
  with s' have a: "\<exists>s'. makeGroupLeader exEnv exGrouped 3 [2] = Inr s'
        \<and> Get_Group s' 3 = Some \<lparr>groupId = 9, leader = Some 3, others = [2]\<rparr>
        \<and> \<not> isHiddenByGroup s' 3
        \<and> media s' 3 = Some (Album 3 [2])"
    by blast
  let ?s = "updElement exGrouped 2 (\<lambda>el. el\<lparr>e_flags := {HiddenByGroup}\<rparr>)"
  have g: "Get_Group ?s 2 = Some \<lparr>groupId = 9, leader = Some 2, others = [3]\<rparr>"
    and h: "isHiddenByGroup ?s 2"
    by (simp_all add: Get_Group_def isHiddenByGroup_def elements_updElement exGrouped_def
        exStore_def exElement_def)
  from makeGroupLeader_ensures [OF g, of exEnv "[3]"] h
  have c: "makeGroupLeader exEnv ?s 2 [3] = Inl EnsuresFailed"
    by simp
  from a c Get_Group_exGrouped(4) show ?thesis by blast
qed

end
